theory Spec2Isabelle
  imports Complex_Main
begin

section \<open>The image analyser component (src/App.tsx)\<close>

text \<open>
  The component keeps five pieces of React state (\<open>image\<close>, \<open>predictions\<close>,
  \<open>isAnalyzing\<close>, \<open>isModelLoading\<close>, \<open>error\<close>) and two mutable refs
  (\<open>modelRef\<close>, \<open>retryCount\<close>). Its handlers are asynchronous: each runs up to an
  \<open>await\<close> or registers a callback, and the rest of it runs when the awaited promise
  settles or the callback fires. The embedding makes this explicit: the state record
  holds, besides the component's own state, the calls that are pending in the event loop,
  and every continuation of the source is a function from state to state that an event
  of the environment triggers.
\<close>

subsection \<open>Data\<close>

text \<open>\<open>interface Prediction { className: string; probability: number }\<close>\<close>

record Prediction =
  className :: string
  probability :: real

text \<open>A loaded \<open>mobilenet.MobileNet\<close> is opaque to the component: a handle.\<close>

datatype MobileNet = MobileNet nat

text \<open>The argument of \<open>mobilenet.load\<close>.\<close>

record ModelConfig =
  version :: nat
  alpha :: real

text \<open>
  A browser \<open>File\<close>, as far as the component reads it: its declared MIME type
  (\<open>file.type\<close>) and the data URL that \<open>readAsDataURL\<close> produces for its bytes.
\<close>

record File =
  ftype :: string
  dataUrl :: string

text \<open>
  The three awaits of \<open>loadModel\<close>'s \<open>try\<close> block, each with the arguments of
  the call that is awaited.
\<close>

datatype load_await =
    TfReady
  | TfSetBackend string
  | MobilenetLoad ModelConfig

text \<open>A pending \<open>modelRef.current.classify(imageElement, 5)\<close>.\<close>

record ClassifyCall =
  model :: MobileNet
  img :: string
  topk :: nat

record app_state =
  image_st :: "string option"
  predictions :: "Prediction list"
  isAnalyzing :: bool
  isModelLoading :: bool
  error :: "string option"
  modelRef :: "MobileNet option"
  retryCount :: nat
  loads :: "load_await list"
  timers :: "nat list"
  reads :: "File list"
  decodes :: "string list"
  inferences :: "ClassifyCall list"

text \<open>
  \<open>image_st\<close> is the source's \<open>image\<close> state. The last five fields are the event
  loop: \<open>loads\<close> has one entry for every invocation of \<open>loadModel\<close> that is parked at
  an await, \<open>timers\<close> the delays (in ms) of the pending \<open>setTimeout(loadModel, _)\<close>
  calls, \<open>reads\<close> the files a \<open>FileReader\<close> is reading, \<open>decodes\<close> the sources of
  the \<open>Image\<close> elements whose \<open>onload\<close>/\<open>onerror\<close> has not fired yet, and
  \<open>inferences\<close> the pending \<open>classify\<close> calls.
\<close>

text \<open>The values of the \<open>useState\<close>/\<open>useRef\<close> initialisers.\<close>

definition App_init :: app_state where
  "App_init =
     \<lparr>image_st = None, predictions = [], isAnalyzing = False, isModelLoading = True,
      error = None, modelRef = None, retryCount = 0,
      loads = [], timers = [], reads = [], decodes = [], inferences = []\<rparr>"

subsection \<open>Strings\<close>

text \<open>\<open>String.prototype.startsWith\<close>.\<close>

definition startsWith :: "string \<Rightarrow> string \<Rightarrow> bool" where
  "startsWith s p = (take (length p) s = p)"

text \<open>The decimal numeral a template literal prints for a non-negative integer.\<close>

fun string_of_nat :: "nat \<Rightarrow> string" where
  "string_of_nat n =
     (if n < 10 then [''0123456789'' ! n]
      else string_of_nat (n div 10) @ [''0123456789'' ! (n mod 10)])"

declare string_of_nat.simps [simp del]

definition retry_message :: "nat \<Rightarrow> string" where
  "retry_message n = ''Loading failed. Retrying... (Attempt '' @ string_of_nat n @ ''/3)''"

definition load_failed_message :: string where
  "load_failed_message =
     ''Unable to load AI model. Please check your internet connection and refresh the page.''"

definition model_not_loaded_message :: string where
  "model_not_loaded_message = ''Model not loaded yet. Please try again in a moment.''"

definition analysis_error_message :: string where
  "analysis_error_message = ''Error analyzing image. Please try again.''"

definition unsupported_type_message :: string where
  "unsupported_type_message = ''Please upload an image file (JPG, PNG)''"

definition decode_error_message :: string where
  "decode_error_message = ''Error loading image. Please try another file.''"

definition read_error_message :: string where
  "read_error_message = ''Error reading file. Please try again.''"

subsection \<open>loadModel and handleRetry\<close>

text \<open>
  \<open>loadModel\<close> up to its first await: \<open>setIsModelLoading(true); setError(null);
  await tf.ready()\<close>. Nothing is assigned to \<open>modelRef.current\<close> here.
\<close>

definition loadModel :: "app_state \<Rightarrow> app_state" where
  "loadModel s = s\<lparr>isModelLoading := True, error := None, loads := loads s @ [TfReady]\<rparr>"

text \<open>
  The continuations of an invocation whose await has resolved: after \<open>tf.ready()\<close> it
  awaits \<open>tf.setBackend('webgl')\<close>, after that \<open>mobilenet.load({version: 2, alpha:
  1.0})\<close>, and when the model has arrived it runs the last three statements of the
  \<open>try\<close> block.
\<close>

definition loadModel_tf_ready :: "app_state \<Rightarrow> app_state" where
  "loadModel_tf_ready s = s\<lparr>loads := loads s @ [TfSetBackend ''webgl'']\<rparr>"

definition loadModel_backend_set :: "app_state \<Rightarrow> app_state" where
  "loadModel_backend_set s = s\<lparr>loads := loads s @ [MobilenetLoad \<lparr>version = 2, alpha = 1\<rparr>]\<rparr>"

definition loadModel_loaded :: "MobileNet \<Rightarrow> app_state \<Rightarrow> app_state" where
  "loadModel_loaded loadedModel s =
     s\<lparr>modelRef := Some loadedModel, isModelLoading := False, retryCount := 0\<rparr>"

text \<open>The \<open>catch\<close> block, which runs when any of the three awaits rejects.\<close>

definition loadModel_catch :: "app_state \<Rightarrow> app_state" where
  "loadModel_catch s =
     (if retryCount s < 3
      then s\<lparr>retryCount := retryCount s + 1,
             error := Some (retry_message (retryCount s + 1)),
             timers := timers s @ [2000]\<rparr>
      else s\<lparr>error := Some load_failed_message, isModelLoading := False\<rparr>)"

definition handleRetry :: "app_state \<Rightarrow> app_state" where
  "handleRetry s = loadModel (s\<lparr>retryCount := 0\<rparr>)"

text \<open>
  The effect \<open>useEffect(() => {...}, [])\<close> runs once after the first render and calls
  \<open>loadModel\<close> (the effect's local flag \<open>mounted\<close> was set just before).
  \<open>after_mount\<close> is the state in which that call has reached its first await.
\<close>

definition after_mount :: app_state where
  "after_mount = loadModel App_init"

subsection \<open>analyzeImage\<close>

text \<open>
  \<open>analyzeImage\<close> up to the await of \<open>classify\<close>. The promise it awaits first is
  settled when it is created: the only callers are the \<open>img.onload\<close> callbacks, so
  \<open>imageElement.complete\<close> holds and no event of the environment comes between.
\<close>

definition analyzeImage :: "app_state \<Rightarrow> string \<Rightarrow> app_state" where
  "analyzeImage s imageElement =
     (case modelRef s of
        None \<Rightarrow> s\<lparr>error := Some model_not_loaded_message\<rparr>
      | Some m \<Rightarrow>
          s\<lparr>isAnalyzing := True, error := None,
            inferences := inferences s @ [\<lparr>model = m, img = imageElement, topk = 5\<rparr>]\<rparr>)"

text \<open>\<open>setPredictions(predictions)\<close>, then the \<open>finally\<close> block.\<close>

definition analyzeImage_resolved :: "Prediction list \<Rightarrow> app_state \<Rightarrow> app_state" where
  "analyzeImage_resolved ps s = s\<lparr>predictions := ps, isAnalyzing := False\<rparr>"

text \<open>The \<open>catch\<close> block, then the \<open>finally\<close> block.\<close>

definition analyzeImage_rejected :: "app_state \<Rightarrow> app_state" where
  "analyzeImage_rejected s = s\<lparr>error := Some analysis_error_message, isAnalyzing := False\<rparr>"

subsection \<open>handleImageUpload, handleDrop and the clear button\<close>

text \<open>\<open>new FileReader()\<close>, its two callbacks, \<open>reader.readAsDataURL(file)\<close>.\<close>

definition readAsDataURL :: "File \<Rightarrow> app_state \<Rightarrow> app_state" where
  "readAsDataURL f s = s\<lparr>reads := reads s @ [f]\<rparr>"

text \<open>\<open>reader.onload\<close>: it sets the image, empties the predictions and starts a decode.\<close>

definition reader_onload :: "string \<Rightarrow> app_state \<Rightarrow> app_state" where
  "reader_onload url s =
     s\<lparr>image_st := Some url, predictions := [], decodes := decodes s @ [url]\<rparr>"

definition reader_onerror :: "app_state \<Rightarrow> app_state" where
  "reader_onerror s = s\<lparr>error := Some read_error_message\<rparr>"

definition img_onerror :: "app_state \<Rightarrow> app_state" where
  "img_onerror s = s\<lparr>error := Some decode_error_message\<rparr>"

text \<open>\<open>event.target.files?.[0]\<close> is \<open>None\<close> when the selection is empty.\<close>

definition handleImageUpload :: "File option \<Rightarrow> app_state \<Rightarrow> app_state" where
  "handleImageUpload file s =
     (case file of
        None \<Rightarrow> s
      | Some f \<Rightarrow>
          if \<not> startsWith (ftype f) ''image/''
          then s\<lparr>error := Some unsupported_type_message\<rparr>
          else readAsDataURL f s)"

definition handleDrop :: "File option \<Rightarrow> app_state \<Rightarrow> app_state" where
  "handleDrop file s =
     (case file of
        Some f \<Rightarrow>
          if startsWith (ftype f) ''image/''
          then readAsDataURL f s
          else s\<lparr>error := Some unsupported_type_message\<rparr>
      | None \<Rightarrow> s\<lparr>error := Some unsupported_type_message\<rparr>)"

text \<open>The \<open>onClick\<close> of the button over the shown image.\<close>

definition clearImage :: "app_state \<Rightarrow> app_state" where
  "clearImage s = s\<lparr>image_st := None, predictions := [], error := None\<rparr>"

subsection \<open>Events\<close>

text \<open>
  What the environment can do: the user's actions, and the settling of a pending call.
  An event that settles a call names the call; \<open>step\<close> is \<open>None\<close> when no such call
  is pending, so a run that \<open>step\<close> accepts only settles calls the component made.
\<close>

datatype Event =
    TfReadyResolved
  | SetBackendResolved string bool
  | MobilenetLoaded ModelConfig MobileNet
  | LoadThrew load_await
  | TimerFired
  | RetryClicked
  | FilePicked "File option"
  | FileDropped "File option"
  | ClearClicked
  | ReadLoaded File
  | ReadFailed File
  | ImageLoaded string
  | ImageFailed string
  | ClassifyResolved ClassifyCall "Prediction list"
  | ClassifyRejected ClassifyCall

text \<open>One invocation of \<open>loadModel\<close> leaves its await.\<close>

definition settle_load :: "load_await \<Rightarrow> app_state \<Rightarrow> app_state option" where
  "settle_load a s =
     (if a \<in> set (loads s) then Some (s\<lparr>loads := remove1 a (loads s)\<rparr>) else None)"

fun step :: "Event \<Rightarrow> app_state \<Rightarrow> app_state option" where
  "step TfReadyResolved s = map_option loadModel_tf_ready (settle_load TfReady s)"
| "step (SetBackendResolved b ok) s =
     map_option loadModel_backend_set (settle_load (TfSetBackend b) s)"
| "step (MobilenetLoaded c m) s =
     map_option (loadModel_loaded m) (settle_load (MobilenetLoad c) s)"
| "step (LoadThrew a) s = map_option loadModel_catch (settle_load a s)"
| "step TimerFired s =
     (case timers s of [] \<Rightarrow> None | d # ds \<Rightarrow> Some (loadModel (s\<lparr>timers := ds\<rparr>)))"
| "step RetryClicked s = Some (handleRetry s)"
| "step (FilePicked file) s = Some (handleImageUpload file s)"
| "step (FileDropped file) s = Some (handleDrop file s)"
| "step ClearClicked s = Some (clearImage s)"
| "step (ReadLoaded f) s =
     (if f \<in> set (reads s)
      then Some (reader_onload (dataUrl f) (s\<lparr>reads := remove1 f (reads s)\<rparr>))
      else None)"
| "step (ReadFailed f) s =
     (if f \<in> set (reads s) then Some (reader_onerror (s\<lparr>reads := remove1 f (reads s)\<rparr>))
      else None)"
| "step (ImageLoaded url) s =
     (if url \<in> set (decodes s)
      then Some (analyzeImage (s\<lparr>decodes := remove1 url (decodes s)\<rparr>) url)
      else None)"
| "step (ImageFailed url) s =
     (if url \<in> set (decodes s) then Some (img_onerror (s\<lparr>decodes := remove1 url (decodes s)\<rparr>))
      else None)"
| "step (ClassifyResolved t ps) s =
     (if t \<in> set (inferences s)
      then Some (analyzeImage_resolved ps (s\<lparr>inferences := remove1 t (inferences s)\<rparr>))
      else None)"
| "step (ClassifyRejected t) s =
     (if t \<in> set (inferences s)
      then Some (analyzeImage_rejected (s\<lparr>inferences := remove1 t (inferences s)\<rparr>))
      else None)"

fun run :: "Event list \<Rightarrow> app_state \<Rightarrow> app_state option" where
  "run [] s = Some s"
| "run (e # es) s = (case step e s of None \<Rightarrow> None | Some s' \<Rightarrow> run es s')"

text \<open>
  A load attempt that fails: the invocation of \<open>loadModel\<close> that is parked at
  \<open>tf.ready()\<close> gets through \<open>k\<close> of its awaits (at most two) and the next one
  rejects.
\<close>

fun attempt_fails :: "nat \<Rightarrow> Event list" where
  "attempt_fails 0 = [LoadThrew TfReady]"
| "attempt_fails (Suc 0) = [TfReadyResolved, LoadThrew (TfSetBackend ''webgl'')]"
| "attempt_fails (Suc (Suc k)) =
     [TfReadyResolved, SetBackendResolved ''webgl'' True,
      LoadThrew (MobilenetLoad \<lparr>version = 2, alpha = 1\<rparr>)]"

text \<open>
  The state of a run of load attempts that began in \<open>s\<close>, after its \<open>n\<close>-th
  failure has scheduled a retry.
\<close>

definition retrying :: "nat \<Rightarrow> app_state \<Rightarrow> app_state" where
  "retrying n s =
     s\<lparr>isModelLoading := True, error := Some (retry_message n), retryCount := n,
       timers := [2000]\<rparr>"

subsection \<open>What is rendered\<close>

text \<open>
  The component returns the loading/error screen when \<open>isModelLoading || error\<close>, and
  on that screen the "Retry Loading" button (the only caller of \<open>handleRetry\<close>) stands
  in the branch for \<open>isModelLoading\<close> being false. A string is truthy when it is not
  empty.
\<close>

definition retry_button_rendered :: "app_state \<Rightarrow> bool" where
  "retry_button_rendered s =
     (\<not> isModelLoading s \<and> (case error s of None \<Rightarrow> False | Some msg \<Rightarrow> msg \<noteq> []))"

fun rendered :: "Event \<Rightarrow> app_state \<Rightarrow> bool" where
  "rendered RetryClicked s = retry_button_rendered s"
| "rendered e s = True"

text \<open>
  The runs in which the user clicks the retry button only while it is on the screen. All
  other events are as free as in \<open>run\<close>.
\<close>

fun ui_run :: "Event list \<Rightarrow> app_state \<Rightarrow> app_state option" where
  "ui_run [] s = Some s"
| "ui_run (e # es) s =
     (if rendered e s then (case step e s of None \<Rightarrow> None | Some s' \<Rightarrow> ui_run es s')
      else None)"

subsection \<open>The classifier\<close>

text \<open>
  Modelled from the spec: \<open>classify\<close> of the MobileNet library, which is not part of the
  repository. The spec (section 4.4) has it return the top \<open>topK\<close> predictions sorted
  by probability descending, ties broken by first-seen order of the model's native output
  (a stable sort). \<open>native\<close> is that native output for the image: one label and
  probability per class.
\<close>

definition classify :: "Prediction list \<Rightarrow> nat \<Rightarrow> Prediction list" where
  "classify native topK = take topK (sort_key (\<lambda>p. - probability p) native)"

subsection \<open>Predicates on events and states\<close>

text \<open>The events that settle a decode or an inference of the image pipeline.\<close>

fun settles_pipeline :: "Event \<Rightarrow> bool" where
  "settles_pipeline (ImageLoaded url) = True"
| "settles_pipeline (ImageFailed url) = True"
| "settles_pipeline (ClassifyResolved t ps) = True"
| "settles_pipeline (ClassifyRejected t) = True"
| "settles_pipeline e = False"

text \<open>A pending \<open>mobilenet.load\<close> was called with version 2 and alpha 1.0.\<close>

fun fixed_config :: "load_await \<Rightarrow> bool" where
  "fixed_config (MobilenetLoad c) = (c = \<lparr>version = 2, alpha = 1\<rparr>)"
| "fixed_config a = True"

text \<open>
  At most one load attempt exists, in flight or scheduled, and none while the component
  does not show itself as loading.
\<close>

definition one_load_at_most :: "app_state \<Rightarrow> bool" where
  "one_load_at_most s =
     (length (loads s) + length (timers s) \<le> 1 \<and>
      (isModelLoading s \<or> (loads s = [] \<and> timers s = [])))"

subsection \<open>What the events write\<close>

text \<open>
  The predictions after an event, from the predictions before it: \<open>setPredictions\<close> is
  called with the result of a resolved \<open>classify\<close>, and with the empty list by
  \<open>reader.onload\<close> and by the clear button; nothing else calls it.
\<close>

fun predictions_written :: "Event \<Rightarrow> Prediction list \<Rightarrow> Prediction list" where
  "predictions_written (ClassifyResolved t qs) ps = qs"
| "predictions_written (ReadLoaded f) ps = []"
| "predictions_written ClearClicked ps = []"
| "predictions_written e ps = ps"

fun predictions_after :: "Event list \<Rightarrow> Prediction list \<Rightarrow> Prediction list" where
  "predictions_after [] ps = ps"
| "predictions_after (e # es) ps = predictions_after es (predictions_written e ps)"

text \<open>
  The error after an event that settles a decode or an inference, when a model is
  loaded: \<open>img.onload\<close> runs \<open>analyzeImage\<close>, which clears it; \<open>img.onerror\<close>
  and the \<open>catch\<close> block of \<open>analyzeImage\<close> set their messages; a resolved
  \<open>classify\<close> leaves it.
\<close>

fun error_written :: "Event \<Rightarrow> string option \<Rightarrow> string option" where
  "error_written (ImageLoaded url) err = None"
| "error_written (ImageFailed url) err = Some decode_error_message"
| "error_written (ClassifyRejected t) err = Some analysis_error_message"
| "error_written e err = err"

fun error_after :: "Event list \<Rightarrow> string option \<Rightarrow> string option" where
  "error_after [] err = err"
| "error_after (e # es) err = error_after es (error_written e err)"

subsection \<open>Example inputs\<close>

text \<open>Two files, and states of the component, on which the theorems below are run.\<close>

definition cat_png :: File where
  "cat_png = \<lparr>ftype = ''image/png'', dataUrl = ''data:image/png;base64,Y2F0''\<rparr>"

definition notes_txt :: File where
  "notes_txt = \<lparr>ftype = ''text/plain'', dataUrl = ''data:text/plain;base64,aGk=''\<rparr>"

definition dog_png :: File where
  "dog_png = \<lparr>ftype = ''image/png'', dataUrl = ''data:image/png;base64,ZG9n''\<rparr>"

definition cat_predictions :: "Prediction list" where
  "cat_predictions = [\<lparr>className = ''tabby'', probability = 3/4\<rparr>]"

definition dog_predictions :: "Prediction list" where
  "dog_predictions = [\<lparr>className = ''beagle'', probability = 7/8\<rparr>]"

text \<open>The picked image has been read while the first load attempt is still pending.\<close>

definition undecoded_cat :: app_state where
  "undecoded_cat =
     \<lparr>image_st = Some ''data:image/png;base64,Y2F0'', predictions = [], isAnalyzing = False,
      isModelLoading = True, error = None, modelRef = None, retryCount = 0,
      loads = [TfReady], timers = [], reads = [],
      decodes = [''data:image/png;base64,Y2F0''], inferences = []\<rparr>"

text \<open>The second load attempt, after one failure, awaits \<open>mobilenet.load\<close>.\<close>

definition second_attempt :: app_state where
  "second_attempt =
     \<lparr>image_st = None, predictions = [], isAnalyzing = False, isModelLoading = True,
      error = None, modelRef = None, retryCount = 1,
      loads = [MobilenetLoad \<lparr>version = 2, alpha = 1\<rparr>], timers = [], reads = [],
      decodes = [], inferences = []\<rparr>"

text \<open>A model has been loaded and nothing is pending.\<close>

definition model_ready :: app_state where
  "model_ready =
     \<lparr>image_st = None, predictions = [], isAnalyzing = False, isModelLoading = False,
      error = None, modelRef = Some (MobileNet 7), retryCount = 0,
      loads = [], timers = [], reads = [], decodes = [], inferences = []\<rparr>"

text \<open>What a model could score the cat picture with, in its own order of classes.\<close>

definition native_scores :: "Prediction list" where
  "native_scores =
     [\<lparr>className = ''tabby'', probability = 1/4\<rparr>,
      \<lparr>className = ''tiger cat'', probability = 1/2\<rparr>,
      \<lparr>className = ''lynx'', probability = 1/16\<rparr>,
      \<lparr>className = ''Egyptian cat'', probability = 1/8\<rparr>,
      \<lparr>className = ''Persian cat'', probability = 1/16\<rparr>,
      \<lparr>className = ''sock'', probability = 0\<rparr>]"

text \<open>The cat picture has been decoded and its \<open>classify\<close> call is pending.\<close>

definition analysing_cat :: app_state where
  "analysing_cat =
     \<lparr>image_st = Some ''data:image/png;base64,Y2F0'', predictions = [], isAnalyzing = True,
      isModelLoading = False, error = None, modelRef = Some (MobileNet 7), retryCount = 0,
      loads = [], timers = [], reads = [], decodes = [],
      inferences = [\<lparr>model = MobileNet 7, img = ''data:image/png;base64,Y2F0'', topk = 5\<rparr>]\<rparr>"

text \<open>A reload, started by the retry button with a model in place, has failed four times.\<close>

definition reload_failed :: app_state where
  "reload_failed =
     \<lparr>image_st = None, predictions = [], isAnalyzing = False, isModelLoading = False,
      error = Some ''Unable to load AI model. Please check your internet connection and refresh the page.'',
      modelRef = Some (MobileNet 7), retryCount = 3,
      loads = [], timers = [], reads = [], decodes = [], inferences = []\<rparr>"

text \<open>All four load attempts after the mount have failed.\<close>

definition load_failed :: app_state where
  "load_failed =
     \<lparr>image_st = None, predictions = [], isAnalyzing = False, isModelLoading = False,
      error = Some ''Unable to load AI model. Please check your internet connection and refresh the page.'',
      modelRef = None, retryCount = 3,
      loads = [], timers = [], reads = [], decodes = [], inferences = []\<rparr>"

text \<open>The dog picture is shown with the predictions for the cat picture.\<close>

definition stale_results :: app_state where
  "stale_results =
     \<lparr>image_st = Some ''data:image/png;base64,ZG9n'',
      predictions = [\<lparr>className = ''tabby'', probability = 3/4\<rparr>],
      isAnalyzing = False, isModelLoading = False, error = None,
      modelRef = Some (MobileNet 7), retryCount = 0,
      loads = [], timers = [], reads = [], decodes = [], inferences = []\<rparr>"

text \<open>
  With a model in place the retry button started a reload, whose first attempt failed: a
  retry is scheduled.
\<close>

definition reload_retrying :: app_state where
  "reload_retrying =
     \<lparr>image_st = None, predictions = [], isAnalyzing = False, isModelLoading = True,
      error = Some ''Loading failed. Retrying... (Attempt 1/3)'',
      modelRef = Some (MobileNet 7), retryCount = 1,
      loads = [], timers = [2000], reads = [], decodes = [], inferences = []\<rparr>"

text \<open>
  With a model loaded, the cat picture was picked and read, then the dog picture was
  dropped and read: both decodes are pending and the dog picture is the current image.
\<close>

definition both_decoding :: app_state where
  "both_decoding =
     \<lparr>image_st = Some ''data:image/png;base64,ZG9n'', predictions = [], isAnalyzing = False,
      isModelLoading = False, error = None, modelRef = Some (MobileNet 7), retryCount = 0,
      loads = [], timers = [], reads = [],
      decodes = [''data:image/png;base64,Y2F0'', ''data:image/png;base64,ZG9n''],
      inferences = []\<rparr>"

text \<open>
  Both pictures have been decoded and the inference for the cat picture has been
  rejected; the inference for the dog picture is pending.
\<close>

definition cat_rejected_dog_pending :: app_state where
  "cat_rejected_dog_pending =
     \<lparr>image_st = Some ''data:image/png;base64,ZG9n'', predictions = [], isAnalyzing = False,
      isModelLoading = False, error = Some ''Error analyzing image. Please try again.'',
      modelRef = Some (MobileNet 7), retryCount = 0,
      loads = [], timers = [], reads = [], decodes = [],
      inferences = [\<lparr>model = MobileNet 7, img = ''data:image/png;base64,ZG9n'', topk = 5\<rparr>]\<rparr>"

section \<open>Properties\<close>

subsection \<open>Runs and their invariants\<close>

lemmas handler_defs =
  loadModel_def loadModel_tf_ready_def loadModel_backend_set_def loadModel_loaded_def
  loadModel_catch_def handleRetry_def analyzeImage_def analyzeImage_resolved_def
  analyzeImage_rejected_def readAsDataURL_def reader_onload_def reader_onerror_def
  img_onerror_def handleImageUpload_def handleDrop_def clearImage_def settle_load_def

lemma run_append:
  "run (es @ fs) s = (case run es s of None \<Rightarrow> None | Some s' \<Rightarrow> run fs s')"
  by (induction es arbitrary: s) (auto split: option.splits)

lemma run_snoc: "run es s = Some s' \<Longrightarrow> run (es @ [e]) s = step e s'"
  by (simp add: run_append split: option.splits)

lemma run_invariant:
  assumes "run es s = Some s'" and "P s"
    and "\<And>e t t'. P t \<Longrightarrow> step e t = Some t' \<Longrightarrow> P t'"
  shows "P s'"
  using assms(1,2)
proof (induction es arbitrary: s)
  case Nil
  then show ?case by simp
next
  case (Cons e es)
  then show ?case by (auto split: option.splits intro: assms(3))
qed

lemma step_retryCount:
  "step e s = Some s' \<Longrightarrow> retryCount s \<le> 3 \<Longrightarrow> retryCount s' \<le> 3"
  by (cases e) (auto simp: handler_defs split: if_splits option.splits list.splits)

lemma step_modelRef_other:
  "step e s = Some s' \<Longrightarrow> \<forall>c m. e \<noteq> MobilenetLoaded c m \<Longrightarrow> modelRef s' = modelRef s"
  by (cases e) (auto simp: handler_defs split: if_splits option.splits list.splits)

lemma step_modelRef:
  "step e s = Some s' \<Longrightarrow> modelRef s \<noteq> None \<Longrightarrow> modelRef s' \<noteq> None"
  by (cases e) (auto simp: handler_defs split: if_splits option.splits list.splits)

lemma run_modelRef_other:
  "run es s = Some s' \<Longrightarrow> \<forall>c m. MobilenetLoaded c m \<notin> set es \<Longrightarrow> modelRef s' = modelRef s"
proof (induction es arbitrary: s)
  case Nil
  then show ?case by simp
next
  case (Cons e es)
  from Cons.prems obtain t where t: "step e s = Some t" "run es t = Some s'"
    by (auto split: option.splits)
  from Cons.prems(2) have "\<forall>c m. e \<noteq> MobilenetLoaded c m" by auto
  with t(1) have "modelRef t = modelRef s" by (rule step_modelRef_other)
  moreover have "modelRef s' = modelRef t" using Cons.IH [OF t(2)] Cons.prems(2) by simp
  ultimately show ?case by simp
qed

text \<open>Without a model handle nothing is being analysed.\<close>

lemma step_no_model_idle:
  "step e s = Some s' \<Longrightarrow> modelRef s = None \<longrightarrow> \<not> isAnalyzing s \<and> inferences s = [] \<Longrightarrow>
   modelRef s' = None \<longrightarrow> \<not> isAnalyzing s' \<and> inferences s' = []"
  by (cases e) (auto simp: handler_defs split: if_splits option.splits list.splits)

lemma reachable_no_model_idle:
  assumes "run es after_mount = Some s" "modelRef s = None"
  shows "\<not> isAnalyzing s \<and> inferences s = []"
proof -
  have "modelRef s = None \<longrightarrow> \<not> isAnalyzing s \<and> inferences s = []"
    using assms(1)
  proof (rule run_invariant)
    show "modelRef after_mount = None \<longrightarrow> \<not> isAnalyzing after_mount \<and> inferences after_mount = []"
      by (simp add: after_mount_def App_init_def loadModel_def)
  qed (rule step_no_model_idle)
  with assms(2) show ?thesis by simp
qed

lemma run_modelRef:
  assumes "run es s = Some s'" "modelRef s \<noteq> None"
  shows "modelRef s' \<noteq> None"
  using assms
proof (rule run_invariant)
qed (rule step_modelRef)

lemma step_topk:
  "step e s = Some s' \<Longrightarrow> \<forall>t \<in> set (inferences s). topk t = 5 \<Longrightarrow>
   \<forall>t \<in> set (inferences s'). topk t = 5"
  by (cases e)
    (auto simp: handler_defs split: if_splits option.splits list.splits dest: notin_set_remove1)

lemma reachable_topk:
  assumes "run es after_mount = Some s"
  shows "\<forall>t \<in> set (inferences s). topk t = 5"
  using assms
proof (rule run_invariant)
  show "\<forall>t \<in> set (inferences after_mount). topk t = 5"
    by (simp add: after_mount_def App_init_def loadModel_def)
qed (rule step_topk)

lemma in_set_remove1D: "y \<in> set (remove1 x xs) \<Longrightarrow> y \<in> set xs"
  using set_remove1_subset [of x xs] by blast

lemma only_pending:
  "a \<in> set xs \<Longrightarrow> length xs + n \<le> Suc 0 \<Longrightarrow> remove1 a xs = [] \<and> n = 0"
  by (cases xs) auto

lemma step_load_config:
  "step e s = Some s' \<Longrightarrow> \<forall>a \<in> set (loads s). fixed_config a \<Longrightarrow>
   \<forall>a \<in> set (loads s'). fixed_config a"
  by (cases e)
    (auto simp: handler_defs split: if_splits option.splits list.splits dest: in_set_remove1D)

lemma reachable_load_config:
  assumes "run es after_mount = Some s"
  shows "\<forall>a \<in> set (loads s). fixed_config a"
  using assms
proof (rule run_invariant)
  show "\<forall>a \<in> set (loads after_mount). fixed_config a"
    by (simp add: after_mount_def App_init_def loadModel_def)
qed (rule step_load_config)

lemma step_settles_image:
  "step e s = Some s' \<Longrightarrow> settles_pipeline e \<Longrightarrow> image_st s' = image_st s"
  by (cases e) (auto simp: handler_defs split: if_splits option.splits)

subsection \<open>Failing load attempts\<close>

lemma attempt_fails_run:
  assumes "loads s = [TfReady]"
  shows "run (attempt_fails k @ es) s = run es (loadModel_catch (s\<lparr>loads := []\<rparr>))"
proof -
  consider "k = 0" | "k = Suc 0" | j where "k = Suc (Suc j)"
    by (cases k rule: attempt_fails.cases) auto
  then show ?thesis
    using assms
    by cases
      (simp_all add: settle_load_def loadModel_tf_ready_def loadModel_backend_set_def)
qed

lemma retry_message_1: "retry_message (Suc 0) = ''Loading failed. Retrying... (Attempt 1/3)''"
  by (simp add: retry_message_def string_of_nat.simps)

lemma retry_message_2: "retry_message 2 = ''Loading failed. Retrying... (Attempt 2/3)''"
  by (simp add: retry_message_def string_of_nat.simps)

lemma retry_message_3: "retry_message 3 = ''Loading failed. Retrying... (Attempt 3/3)''"
  by (simp add: retry_message_def string_of_nat.simps)

lemma retry_message_neq: "load_failed_message \<noteq> retry_message n"
  by (simp add: retry_message_def load_failed_message_def)

lemma fail_from_loadModel:
  assumes "loads s = []" "timers s = []" "retryCount s < 3"
  shows "run (attempt_fails k @ es) (loadModel s) = run es (retrying (Suc (retryCount s)) s)"
proof -
  have "loads (loadModel s) = [TfReady]"
    using assms by (simp add: loadModel_def)
  then have "run (attempt_fails k @ es) (loadModel s) =
      run es (loadModel_catch ((loadModel s)\<lparr>loads := []\<rparr>))"
    by (rule attempt_fails_run)
  also have "loadModel_catch ((loadModel s)\<lparr>loads := []\<rparr>) = retrying (Suc (retryCount s)) s"
    using assms by (simp add: loadModel_def loadModel_catch_def retrying_def)
  finally show ?thesis .
qed

lemma timer_retrying:
  assumes "loads s = []" "timers s = []"
  shows "run (TimerFired # es) (retrying n s) = run es (loadModel (s\<lparr>retryCount := n\<rparr>))"
proof -
  have "loadModel ((retrying n s)\<lparr>timers := []\<rparr>) = loadModel (s\<lparr>retryCount := n\<rparr>)"
    by (rule app_state.equality) (simp_all add: retrying_def loadModel_def assms)
  then show ?thesis by (simp add: retrying_def)
qed

lemma retrying_retryCount: "retrying m (s\<lparr>retryCount := n\<rparr>) = retrying m s"
  by (simp add: retrying_def)

lemma last_failure:
  assumes "loads s = []" "timers s = []"
  shows "run (attempt_fails k) (loadModel (s\<lparr>retryCount := 3\<rparr>)) =
         Some (s\<lparr>isModelLoading := False, error := Some load_failed_message, retryCount := 3\<rparr>)"
proof -
  have "loads (loadModel (s\<lparr>retryCount := 3\<rparr>)) = [TfReady]"
    using assms by (simp add: loadModel_def)
  from attempt_fails_run [OF this, of k "[]"] show ?thesis
    using assms by (simp add: loadModel_def loadModel_catch_def)
qed

subsection \<open>C1: three automatic retries, then the terminal failure\<close>

text \<open>
  C1. A run of load attempts starts with \<open>loadModel\<close> at retry count 0 and nothing else
  pending (the mount, or \<open>handleRetry\<close>). When every attempt fails, at whichever await
  (\<open>k1\<close> .. \<open>k4\<close>), the first, second and third failure each set the message
  "Loading failed. Retrying... (Attempt n/3)" with n = 1, 2, 3, leave the component
  loading and schedule exactly one timer of 2000 ms; the fourth failure sets the terminal
  message, ends loading and schedules nothing. So there are exactly three automatic
  retries, and the terminal message differs from every retry message.
\<close>

theorem retry_three_times_then_fail:
  assumes "retryCount s = 0" and "loads s = []" and "timers s = []"
  shows
    "run (attempt_fails k1) (loadModel s) =
       Some (s\<lparr>isModelLoading := True,
               error := Some ''Loading failed. Retrying... (Attempt 1/3)'',
               retryCount := 1, timers := [2000]\<rparr>) \<and>
     run (attempt_fails k1 @ TimerFired # attempt_fails k2) (loadModel s) =
       Some (s\<lparr>isModelLoading := True,
               error := Some ''Loading failed. Retrying... (Attempt 2/3)'',
               retryCount := 2, timers := [2000]\<rparr>) \<and>
     run (attempt_fails k1 @ TimerFired # attempt_fails k2 @ TimerFired # attempt_fails k3)
         (loadModel s) =
       Some (s\<lparr>isModelLoading := True,
               error := Some ''Loading failed. Retrying... (Attempt 3/3)'',
               retryCount := 3, timers := [2000]\<rparr>) \<and>
     run (attempt_fails k1 @ TimerFired # attempt_fails k2 @ TimerFired # attempt_fails k3 @
          TimerFired # attempt_fails k4) (loadModel s) =
       Some (s\<lparr>isModelLoading := False, error := Some load_failed_message,
               retryCount := 3\<rparr>) \<and>
     (\<forall>n. load_failed_message \<noteq> retry_message n)"
proof -
  have one: "run (attempt_fails k @ es) (loadModel s) = run es (retrying (Suc 0) s)" for k es
    using fail_from_loadModel [of s k es] assms by simp
  have two: "run (attempt_fails k @ es) (loadModel (s\<lparr>retryCount := Suc 0\<rparr>)) =
      run es (retrying 2 s)" for k es
    using fail_from_loadModel [of "s\<lparr>retryCount := Suc 0\<rparr>" k es] assms
    by (simp add: retrying_retryCount numeral_2_eq_2)
  have three: "run (attempt_fails k @ es) (loadModel (s\<lparr>retryCount := 2\<rparr>)) =
      run es (retrying 3 s)" for k es
    using fail_from_loadModel [of "s\<lparr>retryCount := 2\<rparr>" k es] assms
    by (simp add: retrying_retryCount numeral_3_eq_3 numeral_2_eq_2)
  have t: "run (TimerFired # es) (retrying n s) = run es (loadModel (s\<lparr>retryCount := n\<rparr>))"
    for n es
    using timer_retrying assms by simp
  have c1: "run (attempt_fails k1) (loadModel s) = Some (retrying (Suc 0) s)"
    using one [of k1 "[]"] by simp
  have c2: "run (attempt_fails k1 @ TimerFired # attempt_fails k2) (loadModel s) =
      Some (retrying 2 s)"
    using two [of k2 "[]"] by (simp add: one t del: run.simps) simp
  have c3: "run (attempt_fails k1 @ TimerFired # attempt_fails k2 @ TimerFired #
      attempt_fails k3) (loadModel s) = Some (retrying 3 s)"
    using three [of k3 "[]"] by (simp add: one two t del: run.simps) simp
  have c4: "run (attempt_fails k1 @ TimerFired # attempt_fails k2 @ TimerFired #
      attempt_fails k3 @ TimerFired # attempt_fails k4) (loadModel s) =
      Some (s\<lparr>isModelLoading := False, error := Some load_failed_message, retryCount := 3\<rparr>)"
    using last_failure [of s k4] assms by (simp add: one two three t del: run.simps)
  show ?thesis
    using c1 c2 c3 c4
    by (simp add: retrying_def retry_message_1 retry_message_2 retry_message_3
        retry_message_neq del: run.simps)
qed

theorem retry_three_times_then_fail_witness:
  "retryCount App_init = 0 \<and> loads App_init = [] \<and> timers App_init = [] \<and>
   run [LoadThrew TfReady, TimerFired,
        TfReadyResolved, LoadThrew (TfSetBackend ''webgl''), TimerFired,
        TfReadyResolved, SetBackendResolved ''webgl'' True,
        LoadThrew (MobilenetLoad \<lparr>version = 2, alpha = 1\<rparr>)] after_mount =
     Some \<lparr>image_st = None, predictions = [], isAnalyzing = False, isModelLoading = True,
           error = Some ''Loading failed. Retrying... (Attempt 3/3)'', modelRef = None,
           retryCount = 3, loads = [], timers = [2000], reads = [], decodes = [],
           inferences = []\<rparr> \<and>
   run [LoadThrew TfReady, TimerFired,
        TfReadyResolved, LoadThrew (TfSetBackend ''webgl''), TimerFired,
        TfReadyResolved, SetBackendResolved ''webgl'' True,
        LoadThrew (MobilenetLoad \<lparr>version = 2, alpha = 1\<rparr>), TimerFired,
        LoadThrew TfReady] after_mount =
     Some \<lparr>image_st = None, predictions = [], isAnalyzing = False, isModelLoading = False,
           error = Some ''Unable to load AI model. Please check your internet connection and refresh the page.'',
           modelRef = None, retryCount = 3, loads = [], timers = [], reads = [], decodes = [],
           inferences = []\<rparr>"
proof -
  have h: "retryCount App_init = 0" "loads App_init = []" "timers App_init = []"
    by (simp_all add: App_init_def)
  from retry_three_times_then_fail [OF h, of 0 "Suc 0" "Suc (Suc 0)" 0] h show ?thesis
    by (simp add: after_mount_def App_init_def load_failed_message_def del: run.simps)
qed

subsection \<open>C3: analysis without a model\<close>

text \<open>
  C3. When \<open>modelRef.current\<close> is null, \<open>analyzeImage\<close> only sets the error
  "Model not loaded yet. Please try again in a moment.": the predictions, the analysing
  flag and the pending \<open>classify\<close> calls are as before, so no inference is started.
  In every state the component can reach without a model, the flag is false and no
  inference is pending, so the analysing phase is not entered.
\<close>

theorem analyzeImage_model_not_ready:
  assumes "modelRef s = None"
  shows
    "analyzeImage s imageElement =
       s\<lparr>error := Some ''Model not loaded yet. Please try again in a moment.''\<rparr> \<and>
     predictions (analyzeImage s imageElement) = predictions s \<and>
     isAnalyzing (analyzeImage s imageElement) = isAnalyzing s \<and>
     inferences (analyzeImage s imageElement) = inferences s \<and>
     (imageElement \<in> set (decodes s) \<longrightarrow>
        step (ImageLoaded imageElement) s =
          Some (s\<lparr>decodes := remove1 imageElement (decodes s),
                  error := Some ''Model not loaded yet. Please try again in a moment.''\<rparr>)) \<and>
     (\<forall>es. run es after_mount = Some s \<longrightarrow>
        \<not> isAnalyzing (analyzeImage s imageElement) \<and>
        inferences (analyzeImage s imageElement) = [])"
proof -
  have a: "analyzeImage t imageElement =
      t\<lparr>error := Some ''Model not loaded yet. Please try again in a moment.''\<rparr>"
    if "modelRef t = None" for t
    using that by (simp add: analyzeImage_def model_not_loaded_message_def)
  have "\<not> isAnalyzing s \<and> inferences s = []" if "run es after_mount = Some s" for es
    using that assms by (rule reachable_no_model_idle)
  then show ?thesis
    using assms by (simp add: a)
qed

theorem analyzeImage_model_not_ready_witness:
  "modelRef undecoded_cat = None \<and>
   run [FilePicked (Some cat_png), ReadLoaded cat_png] after_mount = Some undecoded_cat \<and>
   step (ImageLoaded ''data:image/png;base64,Y2F0'') undecoded_cat =
     Some (undecoded_cat\<lparr>decodes := [],
             error := Some ''Model not loaded yet. Please try again in a moment.''\<rparr>) \<and>
   \<not> isAnalyzing (analyzeImage undecoded_cat ''data:image/png;base64,Y2F0'') \<and>
   inferences (analyzeImage undecoded_cat ''data:image/png;base64,Y2F0'') = []"
proof -
  have h: "modelRef undecoded_cat = None"
    by (simp add: undecoded_cat_def)
  have r: "run [FilePicked (Some cat_png), ReadLoaded cat_png] after_mount = Some undecoded_cat"
    by (simp add: after_mount_def App_init_def loadModel_def handleImageUpload_def cat_png_def
        startsWith_def readAsDataURL_def reader_onload_def undecoded_cat_def)
  have d: "''data:image/png;base64,Y2F0'' \<in> set (decodes undecoded_cat)"
    "remove1 ''data:image/png;base64,Y2F0'' (decodes undecoded_cat) = []"
    by (simp_all add: undecoded_cat_def)
  note t = analyzeImage_model_not_ready [OF h, of "''data:image/png;base64,Y2F0''"]
  from t d have "step (ImageLoaded ''data:image/png;base64,Y2F0'') undecoded_cat =
     Some (undecoded_cat\<lparr>decodes := [],
             error := Some ''Model not loaded yet. Please try again in a moment.''\<rparr>)"
    by metis
  moreover from t r
  have "\<not> isAnalyzing (analyzeImage undecoded_cat ''data:image/png;base64,Y2F0'') \<and>
      inferences (analyzeImage undecoded_cat ''data:image/png;base64,Y2F0'') = []"
    by blast
  ultimately show ?thesis using h r by blast
qed

subsection \<open>C4: files that are not images\<close>

text \<open>
  C4. For a file whose declared type does not start with "image/", the picker's handler
  and the drop handler both return the state they were given with only the error set to
  "Please upload an image file (JPG, PNG)": the image, the pending decodes, the
  predictions, the model handle, the loading flag and the retry count are those of
  \<open>s\<close>, and no read is started.
\<close>

theorem non_image_file_rejected:
  assumes "\<not> startsWith (ftype f) ''image/''"
  shows
    "handleImageUpload (Some f) s =
       s\<lparr>error := Some ''Please upload an image file (JPG, PNG)''\<rparr> \<and>
     handleDrop (Some f) s = s\<lparr>error := Some ''Please upload an image file (JPG, PNG)''\<rparr> \<and>
     step (FilePicked (Some f)) s =
       Some (s\<lparr>error := Some ''Please upload an image file (JPG, PNG)''\<rparr>) \<and>
     step (FileDropped (Some f)) s =
       Some (s\<lparr>error := Some ''Please upload an image file (JPG, PNG)''\<rparr>)"
  using assms by (simp add: handleImageUpload_def handleDrop_def unsupported_type_message_def)

theorem non_image_file_rejected_witness:
  "\<not> startsWith (ftype notes_txt) ''image/'' \<and>
   handleImageUpload (Some notes_txt) undecoded_cat =
     undecoded_cat\<lparr>error := Some ''Please upload an image file (JPG, PNG)''\<rparr> \<and>
   handleDrop (Some notes_txt) undecoded_cat =
     undecoded_cat\<lparr>error := Some ''Please upload an image file (JPG, PNG)''\<rparr>"
proof -
  have h: "\<not> startsWith (ftype notes_txt) ''image/''"
    by (simp add: notes_txt_def startsWith_def)
  from non_image_file_rejected [OF h, of undecoded_cat] h show ?thesis by simp
qed

subsection \<open>C10: an empty selection and an empty drop\<close>

text \<open>
  C10. The picker's handler returns the state unchanged when no file is selected, so no
  error is set and the image and predictions stay; the drop handler, given no file, sets
  the error "Please upload an image file (JPG, PNG)".
\<close>

theorem empty_selection_vs_empty_drop:
  "handleImageUpload None s = s \<and>
   step (FilePicked None) s = Some s \<and>
   handleDrop None s = s\<lparr>error := Some ''Please upload an image file (JPG, PNG)''\<rparr> \<and>
   step (FileDropped None) s =
     Some (s\<lparr>error := Some ''Please upload an image file (JPG, PNG)''\<rparr>)"
  by (simp add: handleImageUpload_def handleDrop_def unsupported_type_message_def)

theorem empty_selection_vs_empty_drop_witness:
  "handleImageUpload None undecoded_cat = undecoded_cat \<and>
   error (handleImageUpload None undecoded_cat) = None \<and>
   error (handleDrop None undecoded_cat) = Some ''Please upload an image file (JPG, PNG)''"
proof -
  have "error undecoded_cat = None" by (simp add: undecoded_cat_def)
  with empty_selection_vs_empty_drop [of undecoded_cat] show ?thesis by simp
qed

subsection \<open>C5: the retry counter\<close>

text \<open>
  C5. In every state the component can reach, \<open>retryCount\<close> is at most 3.
  From any state, whatever the counter was, the continuation of a successful
  \<open>mobilenet.load\<close> leaves it at 0, and so does \<open>handleRetry\<close>.
\<close>

theorem retryCount_bounded_and_reset:
  assumes "run es after_mount = Some s"
  shows
    "retryCount s \<le> 3 \<and>
     (\<forall>t c m t'. step (MobilenetLoaded c m) t = Some t' \<longrightarrow> retryCount t' = 0) \<and>
     (\<forall>t m. retryCount (loadModel_loaded m t) = 0) \<and>
     (\<forall>t. retryCount (handleRetry t) = 0 \<and> step RetryClicked t = Some (handleRetry t))"
proof -
  have "retryCount s \<le> 3"
    using assms
  proof (rule run_invariant)
    show "retryCount after_mount \<le> 3" by (simp add: after_mount_def App_init_def loadModel_def)
  qed (rule step_retryCount)
  moreover have "retryCount t' = 0" if "step (MobilenetLoaded c m) t = Some t'" for t c m t'
    using that by (auto simp: settle_load_def loadModel_loaded_def split: if_splits)
  ultimately show ?thesis
    by (simp add: handleRetry_def loadModel_def loadModel_loaded_def)
qed

theorem retryCount_bounded_and_reset_witness:
  "run [LoadThrew TfReady, TimerFired, TfReadyResolved, SetBackendResolved ''webgl'' True]
     after_mount = Some second_attempt \<and>
   retryCount second_attempt = 1 \<and>
   step (MobilenetLoaded \<lparr>version = 2, alpha = 1\<rparr> (MobileNet 7)) second_attempt =
     Some (second_attempt\<lparr>loads := [], modelRef := Some (MobileNet 7),
             isModelLoading := False, retryCount := 0\<rparr>) \<and>
   retryCount (handleRetry second_attempt) = 0"
proof -
  have r: "run [LoadThrew TfReady, TimerFired, TfReadyResolved,
      SetBackendResolved ''webgl'' True] after_mount = Some second_attempt"
    by (simp add: after_mount_def App_init_def handler_defs second_attempt_def retry_message_def)
  have l: "step (MobilenetLoaded \<lparr>version = 2, alpha = 1\<rparr> (MobileNet 7)) second_attempt =
     Some (second_attempt\<lparr>loads := [], modelRef := Some (MobileNet 7),
             isModelLoading := False, retryCount := 0\<rparr>)"
    by (simp add: second_attempt_def settle_load_def loadModel_loaded_def)
  have c: "retryCount second_attempt = 1" by (simp add: second_attempt_def)
  from retryCount_bounded_and_reset [OF r] have "retryCount (handleRetry second_attempt) = 0"
    by blast
  with r l c show ?thesis by blast
qed

subsection \<open>C8: the predictions that are shown\<close>

lemma classify_native_scores:
  "classify native_scores 5 =
     [\<lparr>className = ''tiger cat'', probability = 1/2\<rparr>,
      \<lparr>className = ''tabby'', probability = 1/4\<rparr>,
      \<lparr>className = ''Egyptian cat'', probability = 1/8\<rparr>,
      \<lparr>className = ''lynx'', probability = 1/16\<rparr>,
      \<lparr>className = ''Persian cat'', probability = 1/16\<rparr>]"
  by (simp add: classify_def native_scores_def)

lemma run_analysing_cat:
  "run [TfReadyResolved, SetBackendResolved ''webgl'' True,
        MobilenetLoaded \<lparr>version = 2, alpha = 1\<rparr> (MobileNet 7),
        FilePicked (Some cat_png), ReadLoaded cat_png,
        ImageLoaded ''data:image/png;base64,Y2F0''] after_mount = Some analysing_cat"
  by (simp add: after_mount_def App_init_def handler_defs cat_png_def startsWith_def analysing_cat_def)

lemma classify_length: "length (classify native k) \<le> k"
  by (simp add: classify_def)

lemma classify_sorted:
  "sorted_wrt (\<lambda>p q. probability q \<le> probability p) (classify native k)"
proof -
  have "sorted (map (\<lambda>p. - probability p) (sort_key (\<lambda>p. - probability p) native))"
    by (rule sorted_sort_key)
  then have "sorted_wrt (\<lambda>p q. probability q \<le> probability p) (sort_key (\<lambda>p. - probability p) native)"
    by (simp add: sorted_map)
  then show ?thesis
    unfolding classify_def by (rule sorted_wrt_take)
qed

lemma classify_subset: "set (classify native k) \<subseteq> set native"
  using set_take_subset [of k "sort_key (\<lambda>p. - probability p) native"]
  by (simp add: classify_def)

text \<open>
  C8. Every \<open>classify\<close> call the component has pending asks for 5 predictions,
  and when \<open>t\<close> resolves with a list \<open>ps\<close> the component stores \<open>ps\<close> as it is.
  With the classifier of the spec (the top \<open>topK\<close> of the native scores, sorted by
  descending probability) and native probabilities in [0,1], the stored predictions are
  at most 5, sorted by non-increasing probability, each in [0,1].
\<close>

theorem predictions_top5_sorted:
  assumes "run es after_mount = Some s" and "t \<in> set (inferences s)"
    and "\<forall>p \<in> set native. 0 \<le> probability p \<and> probability p \<le> 1"
  shows
    "topk t = 5 \<and>
     (\<forall>ps. step (ClassifyResolved t ps) s =
        Some (s\<lparr>inferences := remove1 t (inferences s), predictions := ps,
                isAnalyzing := False\<rparr>)) \<and>
     (\<exists>s'. step (ClassifyResolved t (classify native (topk t))) s = Some s' \<and>
        predictions s' = classify native 5 \<and>
        length (predictions s') \<le> 5 \<and>
        sorted_wrt (\<lambda>p q. probability q \<le> probability p) (predictions s') \<and>
        (\<forall>p \<in> set (predictions s'). 0 \<le> probability p \<and> probability p \<le> 1))"
proof -
  have k: "topk t = 5"
    using reachable_topk [OF assms(1)] assms(2) by blast
  have st: "step (ClassifyResolved t ps) s =
      Some (s\<lparr>inferences := remove1 t (inferences s), predictions := ps, isAnalyzing := False\<rparr>)"
    for ps
    using assms(2) by (simp add: analyzeImage_resolved_def)
  have r: "\<forall>p \<in> set (classify native 5). 0 \<le> probability p \<and> probability p \<le> 1"
    using classify_subset [of native 5] assms(3) by blast
  let ?s' = "s\<lparr>inferences := remove1 t (inferences s), predictions := classify native 5,
      isAnalyzing := False\<rparr>"
  have "step (ClassifyResolved t (classify native (topk t))) s = Some ?s'"
    by (simp only: k st)
  moreover have "predictions ?s' = classify native 5" by simp
  ultimately have "\<exists>s'. step (ClassifyResolved t (classify native (topk t))) s = Some s' \<and>
        predictions s' = classify native 5 \<and>
        length (predictions s') \<le> 5 \<and>
        sorted_wrt (\<lambda>p q. probability q \<le> probability p) (predictions s') \<and>
        (\<forall>p \<in> set (predictions s'). 0 \<le> probability p \<and> probability p \<le> 1)"
    using classify_length [of native 5] classify_sorted [of native 5] r
    by (intro exI [of _ ?s']) simp
  with k st show ?thesis by blast
qed

theorem predictions_top5_sorted_witness:
  "run [TfReadyResolved, SetBackendResolved ''webgl'' True,
        MobilenetLoaded \<lparr>version = 2, alpha = 1\<rparr> (MobileNet 7),
        FilePicked (Some cat_png), ReadLoaded cat_png,
        ImageLoaded ''data:image/png;base64,Y2F0''] after_mount = Some analysing_cat \<and>
   inferences analysing_cat =
     [\<lparr>model = MobileNet 7, img = ''data:image/png;base64,Y2F0'', topk = 5\<rparr>] \<and>
   list_all (\<lambda>p. 0 \<le> probability p \<and> probability p \<le> 1) native_scores \<and>
   step (ClassifyResolved \<lparr>model = MobileNet 7, img = ''data:image/png;base64,Y2F0'', topk = 5\<rparr>
          (classify native_scores 5)) analysing_cat =
     Some (analysing_cat\<lparr>inferences := [],
       predictions :=
         [\<lparr>className = ''tiger cat'', probability = 1/2\<rparr>,
          \<lparr>className = ''tabby'', probability = 1/4\<rparr>,
          \<lparr>className = ''Egyptian cat'', probability = 1/8\<rparr>,
          \<lparr>className = ''lynx'', probability = 1/16\<rparr>,
          \<lparr>className = ''Persian cat'', probability = 1/16\<rparr>],
       isAnalyzing := False\<rparr>)"
proof -
  let ?t = "\<lparr>model = MobileNet 7, img = ''data:image/png;base64,Y2F0'', topk = 5\<rparr>"
  have i: "inferences analysing_cat = [?t]"
    by (simp add: analysing_cat_def)
  then have m: "?t \<in> set (inferences analysing_cat)" "remove1 ?t (inferences analysing_cat) = []"
    by simp_all
  have n: "\<forall>p \<in> set native_scores. 0 \<le> probability p \<and> probability p \<le> 1"
    by (simp add: native_scores_def)
  then have n': "list_all (\<lambda>p. 0 \<le> probability p \<and> probability p \<le> 1) native_scores"
    by (simp add: list_all_iff)
  from predictions_top5_sorted [OF run_analysing_cat m(1) n]
  have "step (ClassifyResolved ?t (classify native_scores 5)) analysing_cat =
      Some (analysing_cat\<lparr>inferences := remove1 ?t (inferences analysing_cat),
        predictions := classify native_scores 5, isAnalyzing := False\<rparr>)"
    by blast
  then show ?thesis
    using run_analysing_cat i n' by (simp only: m(2) classify_native_scores) simp
qed

subsection \<open>C9: a loaded model stays\<close>

text \<open>
  C9. From a state with a model handle \<open>m\<close>, every run ends in a state with a model
  handle; when no load succeeds in the run, the handle is still \<open>m\<close>. A load failure
  leaves the handle as it was, and \<open>analyzeImage\<close> then starts a \<open>classify\<close> call
  on the handle that is there, whether or not a reload is in progress or has failed.
\<close>

theorem model_handle_never_cleared:
  assumes "modelRef s = Some m" and "run es s = Some s'"
  shows
    "modelRef s' \<noteq> None \<and>
     ((\<forall>c m'. MobilenetLoaded c m' \<notin> set es) \<longrightarrow> modelRef s' = Some m) \<and>
     (\<forall>a s''. step (LoadThrew a) s' = Some s'' \<longrightarrow> modelRef s'' = modelRef s') \<and>
     (\<exists>m'. modelRef s' = Some m' \<and>
        analyzeImage s' imageElement =
          s'\<lparr>isAnalyzing := True, error := None,
             inferences := inferences s' @ [\<lparr>model = m', img = imageElement, topk = 5\<rparr>]\<rparr>)"
proof -
  have a: "modelRef s' \<noteq> None"
    using assms(2) by (rule run_modelRef) (simp add: assms(1))
  have b: "modelRef s' = Some m" if "\<forall>c m'. MobilenetLoaded c m' \<notin> set es"
    using run_modelRef_other [OF assms(2) that] assms(1) by simp
  have c: "modelRef s'' = modelRef s'" if "step (LoadThrew a) s' = Some s''" for a s''
    using that by (rule step_modelRef_other) simp
  from a obtain m' where m': "modelRef s' = Some m'" by blast
  then have "analyzeImage s' imageElement =
          s'\<lparr>isAnalyzing := True, error := None,
             inferences := inferences s' @ [\<lparr>model = m', img = imageElement, topk = 5\<rparr>]\<rparr>"
    by (simp add: analyzeImage_def)
  with a b c m' show ?thesis by blast
qed

lemma run_reload_failed:
  "run [RetryClicked, LoadThrew TfReady, TimerFired, LoadThrew TfReady, TimerFired,
        LoadThrew TfReady, TimerFired, LoadThrew TfReady] model_ready = Some reload_failed"
  by (simp add: model_ready_def reload_failed_def handler_defs retry_message_def
      load_failed_message_def)

theorem model_handle_never_cleared_witness:
  "modelRef model_ready = Some (MobileNet 7) \<and>
   run [RetryClicked, LoadThrew TfReady, TimerFired, LoadThrew TfReady, TimerFired,
        LoadThrew TfReady, TimerFired, LoadThrew TfReady] model_ready = Some reload_failed \<and>
   modelRef reload_failed = Some (MobileNet 7) \<and>
   analyzeImage reload_failed ''data:image/png;base64,Y2F0'' =
     reload_failed\<lparr>isAnalyzing := True, error := None,
       inferences := [\<lparr>model = MobileNet 7, img = ''data:image/png;base64,Y2F0'', topk = 5\<rparr>]\<rparr> \<and>
   run [RetryClicked] model_ready = Some (model_ready\<lparr>isModelLoading := True, loads := [TfReady]\<rparr>) \<and>
   step (LoadThrew TfReady) (model_ready\<lparr>isModelLoading := True, loads := [TfReady]\<rparr>) =
     Some (model_ready\<lparr>isModelLoading := True, retryCount := 1,
             error := Some ''Loading failed. Retrying... (Attempt 1/3)'', timers := [2000]\<rparr>) \<and>
   modelRef (model_ready\<lparr>isModelLoading := True, retryCount := 1,
             error := Some ''Loading failed. Retrying... (Attempt 1/3)'', timers := [2000]\<rparr>) =
     Some (MobileNet 7)"
proof -
  let ?r = "model_ready\<lparr>isModelLoading := True, loads := [TfReady]\<rparr>"
  let ?f = "model_ready\<lparr>isModelLoading := True, retryCount := 1,
             error := Some ''Loading failed. Retrying... (Attempt 1/3)'', timers := [2000]\<rparr>"
  have h: "modelRef model_ready = Some (MobileNet 7)"
    by (simp add: model_ready_def)
  have e: "\<forall>c m'. MobilenetLoaded c m' \<notin> set [RetryClicked, LoadThrew TfReady, TimerFired,
      LoadThrew TfReady, TimerFired, LoadThrew TfReady, TimerFired, LoadThrew TfReady]"
    by simp
  note t = model_handle_never_cleared [OF h run_reload_failed, of "''data:image/png;base64,Y2F0''"]
  from t e have m: "modelRef reload_failed = Some (MobileNet 7)" by blast
  from t m have "analyzeImage reload_failed ''data:image/png;base64,Y2F0'' =
     reload_failed\<lparr>isAnalyzing := True, error := None,
       inferences := inferences reload_failed @
         [\<lparr>model = MobileNet 7, img = ''data:image/png;base64,Y2F0'', topk = 5\<rparr>]\<rparr>"
    by auto
  moreover have "inferences reload_failed = []" by (simp add: reload_failed_def)
  ultimately have a: "analyzeImage reload_failed ''data:image/png;base64,Y2F0'' =
     reload_failed\<lparr>isAnalyzing := True, error := None,
       inferences := [\<lparr>model = MobileNet 7, img = ''data:image/png;base64,Y2F0'', topk = 5\<rparr>]\<rparr>"
    by simp
  have r: "run [RetryClicked] model_ready = Some ?r"
    by (simp add: model_ready_def handleRetry_def loadModel_def)
  have f: "step (LoadThrew TfReady) ?r = Some ?f"
    by (simp add: model_ready_def settle_load_def loadModel_catch_def retry_message_1)
  from model_handle_never_cleared [OF h r] f have "modelRef ?f = modelRef ?r"
    by blast
  then have "modelRef ?f = Some (MobileNet 7)"
    using h by simp
  with h run_reload_failed m a r f show ?thesis by blast
qed

subsection \<open>C6: what loadModel does before its first await\<close>

text \<open>
  C6, as stated, fails: \<open>loadModel\<close> does not clear the model handle. With a model
  loaded, a dropped text file puts the retry button on the screen; the click runs
  \<open>loadModel\<close>, and the handle is still there while the reload is pending.
\<close>

theorem loadModel_clears_handle_counterexample:
  "run [TfReadyResolved, SetBackendResolved ''webgl'' True,
        MobilenetLoaded \<lparr>version = 2, alpha = 1\<rparr> (MobileNet 7),
        FileDropped (Some notes_txt)] after_mount =
     Some (model_ready\<lparr>error := Some ''Please upload an image file (JPG, PNG)''\<rparr>) \<and>
   retry_button_rendered
     (model_ready\<lparr>error := Some ''Please upload an image file (JPG, PNG)''\<rparr>) \<and>
   step RetryClicked (model_ready\<lparr>error := Some ''Please upload an image file (JPG, PNG)''\<rparr>) =
     Some (model_ready\<lparr>isModelLoading := True, loads := [TfReady]\<rparr>) \<and>
   modelRef (loadModel (model_ready\<lparr>error := Some ''Please upload an image file (JPG, PNG)''\<rparr>)) =
     Some (MobileNet 7)"
  by (simp add: after_mount_def App_init_def handler_defs model_ready_def notes_txt_def
      startsWith_def unsupported_type_message_def retry_button_rendered_def)

lemma run_reload_retrying:
  "run [TfReadyResolved, SetBackendResolved ''webgl'' True,
        MobilenetLoaded \<lparr>version = 2, alpha = 1\<rparr> (MobileNet 7),
        FileDropped (Some notes_txt), RetryClicked, LoadThrew TfReady] after_mount =
     Some reload_retrying"
  by (simp add: after_mount_def App_init_def handler_defs notes_txt_def startsWith_def
      reload_retrying_def retry_message_1)

lemma run_second_attempt:
  "run [LoadThrew TfReady, TimerFired, TfReadyResolved, SetBackendResolved ''webgl'' True]
     after_mount = Some second_attempt"
  by (simp add: after_mount_def App_init_def handler_defs second_attempt_def retry_message_def)

text \<open>
  C6, amended. From every state the component can reach, \<open>loadModel\<close> sets
  \<open>isModelLoading\<close>, clears the error, leaves the model handle as it is and parks one
  new invocation at \<open>tf.ready()\<close>; the retry button and the timer start it the same
  way. Every \<open>mobilenet.load\<close> that is pending was called with version 2 and alpha
  1.0.
\<close>

theorem loadModel_keeps_handle:
  assumes "run es after_mount = Some s"
  shows
    "isModelLoading (loadModel s) \<and> error (loadModel s) = None \<and>
     modelRef (loadModel s) = modelRef s \<and>
     loads (loadModel s) = loads s @ [TfReady] \<and>
     step RetryClicked s = Some (loadModel (s\<lparr>retryCount := 0\<rparr>)) \<and>
     (\<forall>d ds. timers s = d # ds \<longrightarrow> step TimerFired s = Some (loadModel (s\<lparr>timers := ds\<rparr>))) \<and>
     (\<forall>c. MobilenetLoad c \<in> set (loads s) \<longrightarrow> version c = 2 \<and> alpha c = 1)"
proof -
  have "\<forall>c. MobilenetLoad c \<in> set (loads s) \<longrightarrow> version c = 2 \<and> alpha c = 1"
    using reachable_load_config [OF assms] by fastforce
  then show ?thesis
    by (simp add: loadModel_def handleRetry_def)
qed

theorem loadModel_keeps_handle_witness:
  "run [LoadThrew TfReady, TimerFired, TfReadyResolved, SetBackendResolved ''webgl'' True]
     after_mount = Some second_attempt \<and>
   loads second_attempt = [MobilenetLoad \<lparr>version = 2, alpha = 1\<rparr>] \<and>
   run [TfReadyResolved, SetBackendResolved ''webgl'' True,
        MobilenetLoaded \<lparr>version = 2, alpha = 1\<rparr> (MobileNet 7),
        FileDropped (Some notes_txt), RetryClicked, LoadThrew TfReady] after_mount =
     Some reload_retrying \<and>
   timers reload_retrying = [2000] \<and>
   step TimerFired reload_retrying = Some (loadModel (reload_retrying\<lparr>timers := []\<rparr>)) \<and>
   isModelLoading (loadModel reload_retrying) \<and>
   error (loadModel reload_retrying) = None \<and>
   modelRef (loadModel reload_retrying) = Some (MobileNet 7)"
proof -
  have l: "loads second_attempt = [MobilenetLoad \<lparr>version = 2, alpha = 1\<rparr>]"
    by (simp add: second_attempt_def)
  have t: "timers reload_retrying = [2000]" and m: "modelRef reload_retrying = Some (MobileNet 7)"
    by (simp_all add: reload_retrying_def)
  note a = loadModel_keeps_handle [OF run_second_attempt]
  note b = loadModel_keeps_handle [OF run_reload_retrying]
  from b t have "step TimerFired reload_retrying = Some (loadModel (reload_retrying\<lparr>timers := []\<rparr>))"
    by blast
  moreover from b m have "isModelLoading (loadModel reload_retrying) \<and>
      error (loadModel reload_retrying) = None \<and>
      modelRef (loadModel reload_retrying) = Some (MobileNet 7)"
    by simp
  ultimately show ?thesis
    using a l t run_second_attempt run_reload_retrying by blast
qed

subsection \<open>C7: overlapping load attempts\<close>

text \<open>
  C7, as stated, fails: no guard stops \<open>handleRetry\<close>. Called after the first failure,
  while the automatic retry is scheduled, it starts a load of its own, and the timer then
  starts another: two invocations of \<open>loadModel\<close> are in flight.
\<close>

theorem overlapping_loads_counterexample:
  "run [LoadThrew TfReady, RetryClicked, TimerFired] after_mount =
     Some \<lparr>image_st = None, predictions = [], isAnalyzing = False, isModelLoading = True,
           error = None, modelRef = None, retryCount = 0,
           loads = [TfReady, TfReady], timers = [], reads = [], decodes = [],
           inferences = []\<rparr>"
  by (simp add: after_mount_def App_init_def handler_defs)

lemma settle_load_only:
  assumes "settle_load a s = Some t" "one_load_at_most s"
  shows "loads t = [] \<and> timers t = [] \<and> isModelLoading t"
proof -
  from assms(1) have a: "a \<in> set (loads s)" and t: "t = s\<lparr>loads := remove1 a (loads s)\<rparr>"
    by (auto simp: settle_load_def split: if_splits)
  from assms(2) have "length (loads s) + length (timers s) \<le> Suc 0"
    by (simp add: one_load_at_most_def)
  with a have "remove1 a (loads s) = [] \<and> length (timers s) = 0"
    by (rule only_pending)
  moreover from a assms(2) have "isModelLoading s"
    by (auto simp: one_load_at_most_def)
  ultimately show ?thesis
    using t by simp
qed

lemma settled_one_load:
  assumes "loads t = [] \<and> timers t = [] \<and> isModelLoading t"
  shows "one_load_at_most (loadModel_tf_ready t)"
    and "one_load_at_most (loadModel_backend_set t)"
    and "one_load_at_most (loadModel_loaded m t)"
    and "one_load_at_most (loadModel_catch t)"
  using assms
  by (simp_all add: one_load_at_most_def loadModel_tf_ready_def loadModel_backend_set_def
      loadModel_loaded_def loadModel_catch_def)

lemma step_one_load:
  assumes "step e s = Some s'" "rendered e s" "one_load_at_most s"
  shows "one_load_at_most s'"
proof (cases e)
  case TfReadyResolved
  with assms(1) obtain t where "settle_load TfReady s = Some t" "s' = loadModel_tf_ready t"
    by auto
  with assms(3) show ?thesis
    using settled_one_load(1) settle_load_only by blast
next
  case (SetBackendResolved b ok)
  with assms(1) obtain t where "settle_load (TfSetBackend b) s = Some t"
    "s' = loadModel_backend_set t"
    by auto
  with assms(3) show ?thesis
    using settled_one_load(2) settle_load_only by blast
next
  case (MobilenetLoaded c m)
  with assms(1) obtain t where "settle_load (MobilenetLoad c) s = Some t"
    "s' = loadModel_loaded m t"
    by auto
  with assms(3) show ?thesis
    using settled_one_load(3) settle_load_only by blast
next
  case (LoadThrew a)
  with assms(1) obtain t where "settle_load a s = Some t" "s' = loadModel_catch t"
    by auto
  with assms(3) show ?thesis
    using settled_one_load(4) settle_load_only by blast
next
  case TimerFired
  with assms show ?thesis
    by (auto simp: one_load_at_most_def loadModel_def split: list.splits)
next
  case RetryClicked
  with assms show ?thesis
    by (auto simp: one_load_at_most_def retry_button_rendered_def handleRetry_def loadModel_def)
qed (use assms in \<open>auto simp: one_load_at_most_def handler_defs
      split: if_splits option.splits\<close>)

lemma ui_run_one_load:
  "ui_run es s = Some s' \<Longrightarrow> one_load_at_most s \<Longrightarrow> one_load_at_most s'"
proof (induction es arbitrary: s)
  case Nil
  then show ?case by simp
next
  case (Cons e es)
  from Cons.prems(1) obtain t where t: "rendered e s" "step e s = Some t" "ui_run es t = Some s'"
    by (auto split: if_splits option.splits)
  from t(2,1) Cons.prems(2) have "one_load_at_most t" by (rule step_one_load)
  with t(3) show ?case by (rule Cons.IH)
qed

lemma ui_run_load_failed:
  "ui_run [LoadThrew TfReady, TimerFired, LoadThrew TfReady, TimerFired, LoadThrew TfReady,
           TimerFired, LoadThrew TfReady] after_mount = Some load_failed"
  by (simp add: after_mount_def App_init_def handler_defs retry_message_def load_failed_def
      load_failed_message_def)

lemma ui_run_retry_clicked:
  "ui_run [LoadThrew TfReady, TimerFired, LoadThrew TfReady, TimerFired, LoadThrew TfReady,
           TimerFired, LoadThrew TfReady, RetryClicked] after_mount =
     Some (load_failed\<lparr>isModelLoading := True, error := None, retryCount := 0,
             loads := [TfReady]\<rparr>)"
  by (simp add: after_mount_def App_init_def handler_defs retry_message_def load_failed_def
      load_failed_message_def retry_button_rendered_def)

text \<open>
  C7, amended. In the runs in which the retry button is clicked only while it is
  rendered (\<open>isModelLoading\<close> false and an error shown), at most one load attempt is in
  flight or scheduled at any time, and none while the button is rendered.
\<close>

theorem one_load_when_retry_from_button:
  assumes "ui_run es after_mount = Some s"
  shows "length (loads s) + length (timers s) \<le> 1 \<and>
         (retry_button_rendered s \<longrightarrow> loads s = [] \<and> timers s = [])"
proof -
  have "one_load_at_most after_mount"
    by (simp add: one_load_at_most_def after_mount_def App_init_def loadModel_def)
  with assms have "one_load_at_most s" by (rule ui_run_one_load)
  then show ?thesis
    by (auto simp: one_load_at_most_def retry_button_rendered_def)
qed

theorem one_load_when_retry_from_button_witness:
  "ui_run [LoadThrew TfReady, TimerFired, LoadThrew TfReady, TimerFired, LoadThrew TfReady,
           TimerFired, LoadThrew TfReady] after_mount = Some load_failed \<and>
   retry_button_rendered load_failed \<and> loads load_failed = [] \<and> timers load_failed = [] \<and>
   ui_run [LoadThrew TfReady, TimerFired, LoadThrew TfReady, TimerFired, LoadThrew TfReady,
           TimerFired, LoadThrew TfReady, RetryClicked] after_mount =
     Some (load_failed\<lparr>isModelLoading := True, error := None, retryCount := 0,
             loads := [TfReady]\<rparr>) \<and>
   length (loads (load_failed\<lparr>isModelLoading := True, error := None, retryCount := 0,
             loads := [TfReady]\<rparr>)) +
   length (timers (load_failed\<lparr>isModelLoading := True, error := None, retryCount := 0,
             loads := [TfReady]\<rparr>)) \<le> 1 \<and>
   ui_run [LoadThrew TfReady, RetryClicked, TimerFired] after_mount = None"
proof -
  have b: "retry_button_rendered load_failed"
    by (simp add: retry_button_rendered_def load_failed_def)
  have n: "ui_run [LoadThrew TfReady, RetryClicked, TimerFired] after_mount = None"
    by (simp add: after_mount_def App_init_def handler_defs retry_message_def
        retry_button_rendered_def)
  from one_load_when_retry_from_button [OF ui_run_load_failed] b
  have "loads load_failed = [] \<and> timers load_failed = []"
    by blast
  with one_load_when_retry_from_button [OF ui_run_retry_clicked] b n
    ui_run_load_failed ui_run_retry_clicked
  show ?thesis by blast
qed

subsection \<open>C2: a superseded image\<close>

text \<open>
  C2, as stated, fails: nothing checks that a resolving decode or inference belongs to
  the current image. The cat picture is picked, and the dog picture is dropped while the
  cat's decode is pending; the dog's pipeline completes first, then the cat's decode and
  inference resolve. The final state shows the dog picture with the cat's predictions.
\<close>

theorem superseded_image_overwrites_counterexample:
  "run [TfReadyResolved, SetBackendResolved ''webgl'' True,
        MobilenetLoaded \<lparr>version = 2, alpha = 1\<rparr> (MobileNet 7),
        FilePicked (Some cat_png), ReadLoaded cat_png,
        FileDropped (Some dog_png), ReadLoaded dog_png,
        ImageLoaded (dataUrl dog_png),
        ClassifyResolved \<lparr>model = MobileNet 7, img = dataUrl dog_png, topk = 5\<rparr> dog_predictions,
        ImageLoaded (dataUrl cat_png),
        ClassifyResolved \<lparr>model = MobileNet 7, img = dataUrl cat_png, topk = 5\<rparr> cat_predictions]
     after_mount = Some stale_results \<and>
   image_st stale_results = Some (dataUrl dog_png) \<and>
   predictions stale_results = cat_predictions \<and>
   cat_predictions \<noteq> dog_predictions"
  by (simp add: after_mount_def App_init_def handler_defs cat_png_def dog_png_def startsWith_def
      cat_predictions_def dog_predictions_def stale_results_def)

lemma step_predictions_written:
  "step e s = Some s' \<Longrightarrow> predictions s' = predictions_written e (predictions s)"
  by (cases e) (auto simp: handler_defs split: if_splits option.splits list.splits)

lemma run_predictions_after:
  "run es s = Some s' \<Longrightarrow> predictions s' = predictions_after es (predictions s)"
proof (induction es arbitrary: s)
  case Nil
  then show ?case by simp
next
  case (Cons e es)
  from Cons.prems obtain t where t: "step e s = Some t" "run es t = Some s'"
    by (auto split: option.splits)
  from t(1) have "predictions t = predictions_written e (predictions s)"
    by (rule step_predictions_written)
  with Cons.IH [OF t(2)] show ?case by simp
qed

lemma step_error_written:
  "step e s = Some s' \<Longrightarrow> settles_pipeline e \<Longrightarrow> modelRef s \<noteq> None \<Longrightarrow>
   error s' = error_written e (error s)"
  by (cases e) (auto simp: handler_defs split: if_splits option.splits)

lemma run_error_after:
  "run es s = Some s' \<Longrightarrow> list_all settles_pipeline es \<Longrightarrow> modelRef s \<noteq> None \<Longrightarrow>
   error s' = error_after es (error s)"
proof (induction es arbitrary: s)
  case Nil
  then show ?case by simp
next
  case (Cons e es)
  from Cons.prems(1) obtain t where t: "step e s = Some t" "run es t = Some s'"
    by (auto split: option.splits)
  from Cons.prems(2) have e: "settles_pipeline e" and es: "list_all settles_pipeline es"
    by simp_all
  from t(1) e Cons.prems(3) have "error t = error_written e (error s)"
    by (rule step_error_written)
  moreover from t(1) Cons.prems(3) have "modelRef t \<noteq> None"
    by (rule step_modelRef)
  ultimately show ?case
    using Cons.IH [OF t(2) es] by simp
qed

lemma run_settles_image:
  "run es s = Some s' \<Longrightarrow> list_all settles_pipeline es \<Longrightarrow> image_st s' = image_st s"
proof (induction es arbitrary: s)
  case Nil
  then show ?case by simp
next
  case (Cons e es)
  from Cons.prems(1) obtain t where t: "step e s = Some t" "run es t = Some s'"
    by (auto split: option.splits)
  from Cons.prems(2) have e: "settles_pipeline e" and es: "list_all settles_pipeline es"
    by simp_all
  from t(1) e have "image_st t = image_st s" by (rule step_settles_image)
  with Cons.IH [OF t(2) es] show ?case by simp
qed

lemma run_cat_rejected_dog_pending:
  "run [ImageLoaded ''data:image/png;base64,Y2F0'', ImageLoaded ''data:image/png;base64,ZG9n'',
        ClassifyRejected \<lparr>model = MobileNet 7, img = ''data:image/png;base64,Y2F0'', topk = 5\<rparr>]
     both_decoding = Some cat_rejected_dog_pending"
  by (simp add: both_decoding_def cat_rejected_dog_pending_def handler_defs
      analysis_error_message_def)

lemma run_both_decoding:
  "run [TfReadyResolved, SetBackendResolved ''webgl'' True,
        MobilenetLoaded \<lparr>version = 2, alpha = 1\<rparr> (MobileNet 7),
        FilePicked (Some cat_png), ReadLoaded cat_png,
        FileDropped (Some dog_png), ReadLoaded dog_png] after_mount = Some both_decoding"
  by (simp add: after_mount_def App_init_def handler_defs cat_png_def dog_png_def startsWith_def
      both_decoding_def)

text \<open>
  C2, amended. No guard ties a settling decode or inference to the current image; what
  the final state holds follows from the order in which they settle. After every run the
  predictions are those of \<open>predictions_after\<close>: the result of the inference that
  resolved last, for whichever image, or empty when a read completed or the image was
  cleared after it. Along events that only settle decodes and inferences the current
  image does not change and, with a model loaded, the error is that of
  \<open>error_after\<close>: what the last completed decode (none), failed decode or rejected
  inference wrote, a resolved inference leaving it as it was. A pending inference can
  resolve or reject whatever the current image is, writing exactly these fields.
\<close>

theorem settling_order_decides_outcome:
  assumes "run es s0 = Some s"
  shows
    "predictions s = predictions_after es (predictions s0) \<and>
     (list_all settles_pipeline es \<longrightarrow> image_st s = image_st s0) \<and>
     (list_all settles_pipeline es \<and> modelRef s0 \<noteq> None \<longrightarrow>
        error s = error_after es (error s0)) \<and>
     (\<forall>t ps. t \<in> set (inferences s) \<longrightarrow>
        step (ClassifyResolved t ps) s =
          Some (s\<lparr>inferences := remove1 t (inferences s), predictions := ps,
                  isAnalyzing := False\<rparr>) \<and>
        step (ClassifyRejected t) s =
          Some (s\<lparr>inferences := remove1 t (inferences s),
                  error := Some ''Error analyzing image. Please try again.'',
                  isAnalyzing := False\<rparr>))"
proof -
  have a: "predictions s = predictions_after es (predictions s0)"
    using assms by (rule run_predictions_after)
  have b: "image_st s = image_st s0" if "list_all settles_pipeline es"
    using assms that by (rule run_settles_image)
  have c: "error s = error_after es (error s0)"
    if "list_all settles_pipeline es" "modelRef s0 \<noteq> None"
    using assms that by (rule run_error_after)
  have d: "step (ClassifyResolved t ps) s =
      Some (s\<lparr>inferences := remove1 t (inferences s), predictions := ps, isAnalyzing := False\<rparr>)"
    if "t \<in> set (inferences s)" for t ps
    using that by (simp add: analyzeImage_resolved_def)
  have e: "step (ClassifyRejected t) s =
      Some (s\<lparr>inferences := remove1 t (inferences s),
              error := Some ''Error analyzing image. Please try again.'',
              isAnalyzing := False\<rparr>)"
    if "t \<in> set (inferences s)" for t
    using that by (simp add: analyzeImage_rejected_def analysis_error_message_def)
  from a b c d e show ?thesis by blast
qed

theorem settling_order_decides_outcome_witness:
  "run [TfReadyResolved, SetBackendResolved ''webgl'' True,
        MobilenetLoaded \<lparr>version = 2, alpha = 1\<rparr> (MobileNet 7),
        FilePicked (Some cat_png), ReadLoaded cat_png,
        FileDropped (Some dog_png), ReadLoaded dog_png] after_mount = Some both_decoding \<and>
   run [ImageLoaded ''data:image/png;base64,Y2F0'', ImageLoaded ''data:image/png;base64,ZG9n'',
        ClassifyRejected \<lparr>model = MobileNet 7, img = ''data:image/png;base64,Y2F0'', topk = 5\<rparr>]
     both_decoding = Some cat_rejected_dog_pending \<and>
   list_all settles_pipeline
     [ImageLoaded ''data:image/png;base64,Y2F0'', ImageLoaded ''data:image/png;base64,ZG9n'',
      ClassifyRejected \<lparr>model = MobileNet 7, img = ''data:image/png;base64,Y2F0'', topk = 5\<rparr>] \<and>
   modelRef both_decoding = Some (MobileNet 7) \<and>
   image_st cat_rejected_dog_pending = Some (dataUrl dog_png) \<and>
   predictions cat_rejected_dog_pending = [] \<and>
   error cat_rejected_dog_pending = Some ''Error analyzing image. Please try again.'' \<and>
   step (ClassifyResolved \<lparr>model = MobileNet 7, img = ''data:image/png;base64,ZG9n'', topk = 5\<rparr>
          dog_predictions) cat_rejected_dog_pending =
     Some (cat_rejected_dog_pending\<lparr>inferences := [], predictions := dog_predictions,
             isAnalyzing := False\<rparr>)"
proof -
  let ?es = "[ImageLoaded ''data:image/png;base64,Y2F0'',
      ImageLoaded ''data:image/png;base64,ZG9n'',
      ClassifyRejected \<lparr>model = MobileNet 7, img = ''data:image/png;base64,Y2F0'', topk = 5\<rparr>]"
  let ?t = "\<lparr>model = MobileNet 7, img = ''data:image/png;base64,ZG9n'', topk = 5\<rparr>"
  have l: "list_all settles_pipeline ?es"
    by simp
  have m: "modelRef both_decoding = Some (MobileNet 7)"
    and i0: "image_st both_decoding = Some (dataUrl dog_png)"
    and p0: "predictions both_decoding = []"
    and e0: "error both_decoding = None"
    by (simp_all add: both_decoding_def dog_png_def)
  have i: "?t \<in> set (inferences cat_rejected_dog_pending)"
    "remove1 ?t (inferences cat_rejected_dog_pending) = []"
    by (simp_all add: cat_rejected_dog_pending_def)
  note t = settling_order_decides_outcome [OF run_cat_rejected_dog_pending]
  from t have "predictions cat_rejected_dog_pending = predictions_after ?es (predictions both_decoding)"
    by blast
  then have p: "predictions cat_rejected_dog_pending = []"
    by (simp add: p0)
  from t l have "image_st cat_rejected_dog_pending = image_st both_decoding"
    by blast
  then have im: "image_st cat_rejected_dog_pending = Some (dataUrl dog_png)"
    by (simp add: i0)
  from t l m have "error cat_rejected_dog_pending = error_after ?es (error both_decoding)"
    by auto
  then have e: "error cat_rejected_dog_pending = Some ''Error analyzing image. Please try again.''"
    by (simp add: e0 analysis_error_message_def)
  from t i(1) have "step (ClassifyResolved ?t dog_predictions) cat_rejected_dog_pending =
      Some (cat_rejected_dog_pending\<lparr>inferences := remove1 ?t (inferences cat_rejected_dog_pending),
        predictions := dog_predictions, isAnalyzing := False\<rparr>)"
    by blast
  then have r: "step (ClassifyResolved ?t dog_predictions) cat_rejected_dog_pending =
      Some (cat_rejected_dog_pending\<lparr>inferences := [], predictions := dog_predictions,
        isAnalyzing := False\<rparr>)"
    by (simp only: i(2))
  from run_both_decoding run_cat_rejected_dog_pending l m im p e r show ?thesis
    by blast
qed


end
